theory Spec2Isabelle
  imports Complex_Main
begin

section \<open>Values\<close>

text \<open>
  Task records are what \<^verbatim>\<open>json.loads\<close> returns: dictionaries from field names to
  arbitrary JSON values. A dictionary is an association list read with \<open>map_of\<close>
  (the first binding of a key is its value). Python's \<^verbatim>\<open>None\<close> is \<open>JNull\<close>.
  Strings are sequences of code points below 256.
\<close>

datatype pyfloat = Finite rat | Infinite bool | NaN

datatype json =
    JNull
  | JBool bool
  | JInt int
  | JFloat pyfloat
  | JStr string
  | JArr "json list"
  | JObj "(string \<times> json) list"

type_synonym pydict = "(string \<times> json) list"

datatype exc =
    AttributeError | TypeError | ValueError | JSONDecodeError | RecursionError
  | ExternalError string

text \<open>\<^verbatim>\<open>d.get(k)\<close> and \<^verbatim>\<open>d.get(k, default)\<close>.\<close>

definition dict_get :: "pydict \<Rightarrow> string \<Rightarrow> json" where
  "dict_get d k = (case map_of d k of None \<Rightarrow> JNull | Some v \<Rightarrow> v)"

definition dict_get_default :: "pydict \<Rightarrow> string \<Rightarrow> json \<Rightarrow> json" where
  "dict_get_default d k dflt = (case map_of d k of None \<Rightarrow> dflt | Some v \<Rightarrow> v)"

text \<open>Truth value of an object in an \<^verbatim>\<open>if\<close>.\<close>

fun truthy :: "json \<Rightarrow> bool" where
  "truthy JNull = False"
| "truthy (JBool b) = b"
| "truthy (JInt i) = (i \<noteq> 0)"
| "truthy (JFloat f) = (f \<noteq> Finite 0)"
| "truthy (JStr s) = (s \<noteq> [])"
| "truthy (JArr xs) = (xs \<noteq> [])"
| "truthy (JObj d) = (d \<noteq> [])"

text \<open>\<^verbatim>\<open>isinstance(v, str)\<close>.\<close>

fun is_str :: "json \<Rightarrow> bool" where
  "is_str (JStr s) = True"
| "is_str v = False"

subsection \<open>Strings\<close>

definition digit_char :: "nat \<Rightarrow> char" where
  "digit_char n = ''0123456789'' ! n"

fun dec :: "nat \<Rightarrow> string" where
  "dec n = (if n < 10 then [digit_char n] else dec (n div 10) @ [digit_char (n mod 10)])"

declare dec.simps [simp del]

text \<open>\<^verbatim>\<open>"%0wd" % n\<close> for a non-negative \<open>n\<close>.\<close>

definition zpad :: "nat \<Rightarrow> nat \<Rightarrow> string" where
  "zpad w n = replicate (w - length (dec n)) (CHR ''0'') @ dec n"

text \<open>\<^verbatim>\<open>str.lower\<close> on code points below 256: the ASCII capitals and the Latin-1 capitals
  (0xC0 to 0xDE without the multiplication sign) move up by 32.\<close>

definition py_lower_char :: "char \<Rightarrow> char" where
  "py_lower_char c =
     (let n = (of_char c :: nat)
      in if (65 \<le> n \<and> n \<le> 90) \<or> (192 \<le> n \<and> n \<le> 222 \<and> n \<noteq> 215)
         then char_of (n + 32) else c)"

definition py_lower :: "string \<Rightarrow> string" where
  "py_lower s = map py_lower_char s"

text \<open>\<^verbatim>\<open>v.lower()\<close> on an arbitrary value: only strings have the method.\<close>

definition lower_method :: "json \<Rightarrow> exc + string" where
  "lower_method v = (case v of JStr s \<Rightarrow> Inr (py_lower s) | _ \<Rightarrow> Inl AttributeError)"

text \<open>Whitespace as \<^verbatim>\<open>str.strip\<close> and the regular expression class \<^verbatim>\<open>\s\<close> see it
  (code points below 256).\<close>

definition is_space :: "char \<Rightarrow> bool" where
  "is_space c =
     (let n = (of_char c :: nat)
      in (9 \<le> n \<and> n \<le> 13) \<or> (28 \<le> n \<and> n \<le> 32) \<or> n = 133 \<or> n = 160)"

definition py_strip :: "string \<Rightarrow> string" where
  "py_strip s = rev (dropWhile is_space (rev (dropWhile is_space s)))"

definition is_digit :: "char \<Rightarrow> bool" where
  "is_digit c = (let n = (of_char c :: nat) in 48 \<le> n \<and> n \<le> 57)"

definition digit_val :: "char \<Rightarrow> nat" where
  "digit_val c = of_char c - 48"

section \<open>Dates and times\<close>

record datetime =
  year :: nat
  month :: nat
  day :: nat
  hour :: nat
  minute :: nat
  second :: nat
  microsecond :: nat

text \<open>A \<^verbatim>\<open>datetime\<close> object is naive, or aware with a UTC offset (in seconds).\<close>

datatype instant = Naive datetime | Aware datetime int

definition is_leap :: "nat \<Rightarrow> bool" where
  "is_leap y = (y mod 4 = 0 \<and> (0 < y mod 100 \<or> y mod 400 = 0))"

definition days_in_month :: "nat \<Rightarrow> nat \<Rightarrow> nat" where
  "days_in_month y m =
     (if m = 2 then (if is_leap y then 29 else 28)
      else if m = 4 \<or> m = 6 \<or> m = 9 \<or> m = 11 then 30 else 31)"

definition valid_datetime :: "datetime \<Rightarrow> bool" where
  "valid_datetime t =
     (1 \<le> year t \<and> year t \<le> 9999 \<and> 1 \<le> month t \<and> month t \<le> 12 \<and>
      1 \<le> day t \<and> day t \<le> days_in_month (year t) (month t) \<and>
      hour t < 24 \<and> minute t < 60 \<and> second t < 60 \<and> microsecond t < 1000000)"

text \<open>The proleptic Gregorian ordinal of a date, and an instant in microseconds.\<close>

definition days_before_year :: "nat \<Rightarrow> int" where
  "days_before_year y =
     (let p = int y - 1 in p * 365 + p div 4 - p div 100 + p div 400)"

definition days_before_month :: "nat \<Rightarrow> nat \<Rightarrow> int" where
  "days_before_month y m = int (sum_list (map (days_in_month y) [1..<m]))"

definition ymd2ord :: "datetime \<Rightarrow> int" where
  "ymd2ord t = days_before_year (year t) + days_before_month (year t) (month t) + int (day t)"

definition to_microseconds :: "datetime \<Rightarrow> int" where
  "to_microseconds t =
     (((ymd2ord t * 24 + int (hour t)) * 60 + int (minute t)) * 60 + int (second t)) * 1000000
       + int (microsecond t)"

text \<open>\<^verbatim>\<open>str(now.date())\<close>.\<close>

definition str_date :: "datetime \<Rightarrow> string" where
  "str_date t = zpad 4 (year t) @ ''-'' @ zpad 2 (month t) @ ''-'' @ zpad 2 (day t)"

section \<open>The environment\<close>

text \<open>
  The services outside the repository are functions of the environment:
  the language model, the JSON decoder, the SMTP session, the quote service, the calendar
  service, \<^verbatim>\<open>datetime.fromisoformat\<close>, \<^verbatim>\<open>str()\<close> on floats, lists and dictionaries, and the
  clock (the value of \<^verbatim>\<open>datetime.now()\<close> at the k-th task of the scheduling pass).
\<close>

record env =
  generate_content :: "string \<Rightarrow> exc + string option"
  json_loads :: "string \<Rightarrow> exc + json"
  smtp_session :: "string \<Rightarrow> string \<Rightarrow> json \<Rightarrow> string \<Rightarrow> exc option"
  market_price :: "json \<Rightarrow> exc + json"
  calendar_insert :: "json \<Rightarrow> exc + json"
  fromisoformat :: "string \<Rightarrow> exc + instant"
  py_repr :: "json \<Rightarrow> string"
  clock :: "nat \<Rightarrow> datetime"

text \<open>\<^verbatim>\<open>str(v)\<close>, as the f-strings format a value.\<close>

definition py_str :: "env \<Rightarrow> json \<Rightarrow> string" where
  "py_str e v =
     (case v of
        JStr s \<Rightarrow> s
      | JNull \<Rightarrow> ''None''
      | JBool b \<Rightarrow> (if b then ''True'' else ''False'')
      | JInt i \<Rightarrow> (if i < 0 then ''-'' @ dec (nat (- i)) else dec (nat i))
      | _ \<Rightarrow> py_repr e v)"

section \<open>Observable behaviour\<close>

datatype log_line =
    DispatchExecuting pydict
  | DispatchNoEvent
  | DispatchUnknownType json
  | EmailSent json
  | EmailFailed exc
  | EventCreated json
  | SchedulerParseError json exc
  | SchedulerScheduling json int instant
  | ParserInvalidJson
  | ParserRawOutput string

text \<open>
  A run is the list of what it did, in order: the lines it printed, the calls of the three
  executors with their arguments, the call of the language model, and the timers it armed
  (delay in microseconds, and the task bound to the callback).
\<close>

datatype event =
    Print log_line
  | SendEmail string string json json json
  | GetStockPrice json
  | CreateCalendarInvite json
  | CallGemini string
  | ArmTimer int pydict

type_synonym 'a outcome = "event list \<times> (exc + 'a)"

definition prepend :: "event list \<Rightarrow> 'a outcome \<Rightarrow> 'a outcome" where
  "prepend es r = (es @ fst r, snd r)"

definition and_then :: "'a outcome \<Rightarrow> ('a \<Rightarrow> 'b outcome) \<Rightarrow> 'b outcome" where
  "and_then r f = (case snd r of Inl e \<Rightarrow> (fst r, Inl e) | Inr a \<Rightarrow> prepend (fst r) (f a))"

definition lift :: "exc + 'a \<Rightarrow> 'a outcome" where
  "lift x = ([], x)"

section \<open>Action executors\<close>

definition EMAIL_SENDER :: string where
  "EMAIL_SENDER = ''example@gmail.com''"

definition EMAIL_PASSWORD :: string where
  "EMAIL_PASSWORD = ''16 digit app password here''"

text \<open>\<^verbatim>\<open>email_sender.send_email\<close>: the whole body is inside \<^verbatim>\<open>try ... except Exception\<close>.\<close>

definition send_email :: "env \<Rightarrow> string \<Rightarrow> string \<Rightarrow> json \<Rightarrow> json \<Rightarrow> json \<Rightarrow> unit outcome" where
  "send_email e sender password recipient subject message =
     (let msg = ''Subject: '' @ py_str e subject @ [CHR 0x0A, CHR 0x0A] @ py_str e message
      in ([SendEmail sender password recipient subject message,
           (case smtp_session e sender password recipient msg of
              None \<Rightarrow> Print (EmailSent recipient)
            | Some err \<Rightarrow> Print (EmailFailed err))],
          Inr ()))"

text \<open>\<^verbatim>\<open>stock_fetcher.get_stock_price\<close>: no handler around the lookup.\<close>

definition get_stock_price :: "env \<Rightarrow> json \<Rightarrow> json outcome" where
  "get_stock_price e ticker =
     ([GetStockPrice ticker],
      (case market_price e ticker of
         Inl err \<Rightarrow> Inl err
       | Inr price \<Rightarrow> if price = JNull then Inr (JStr ''Price not available'') else Inr price))"

text \<open>\<^verbatim>\<open>calendar_invite.create_calendar_invite\<close>: credentials, service and insertion are one
  call of the calendar service, which returns the created event's link or raises.\<close>

definition create_calendar_invite :: "env \<Rightarrow> json \<Rightarrow> unit outcome" where
  "create_calendar_invite e event_details =
     (case calendar_insert e event_details of
        Inl err \<Rightarrow> ([CreateCalendarInvite event_details], Inl err)
      | Inr link \<Rightarrow> ([CreateCalendarInvite event_details, Print (EventCreated link)], Inr ()))"

section \<open>Dispatcher\<close>

definition dispatch_task :: "env \<Rightarrow> pydict \<Rightarrow> unit outcome" where
  "dispatch_task e task =
     (let task_type = dict_get task ''task_type''
      in prepend [Print (DispatchExecuting task)]
        (if task_type = JStr ''email_reminder'' then
           (let email = dict_get_default task ''email'' (JStr EMAIL_SENDER)
            in and_then (lift (lower_method email)) (\<lambda>low.
                 let email = (if low = ''unknown'' then JStr EMAIL_SENDER else email);
                     subject = dict_get_default task ''subject'' (JStr ''Reminder'');
                     message = dict_get_default task ''message'' (JStr '''')
                 in send_email e EMAIL_SENDER EMAIL_PASSWORD email subject message))
         else if task_type = JStr ''stock_price'' then
           (let ticker = dict_get_default task ''stock_symbol'' (JStr ''AAPL'')
            in and_then (get_stock_price e ticker) (\<lambda>price.
                 let subject = dict_get_default task ''subject''
                                 (JStr (''Stock Price Update for '' @ py_str e ticker));
                     message = JStr (''The current price for '' @ py_str e ticker
                                       @ '' is '' @ py_str e price);
                     email = dict_get_default task ''email'' (JStr EMAIL_SENDER)
                 in and_then (lift (lower_method email)) (\<lambda>low.
                      let email = (if low = ''unknown'' then JStr EMAIL_SENDER else email)
                      in send_email e EMAIL_SENDER EMAIL_PASSWORD email subject message)))
         else if task_type = JStr ''calendar_invite'' then
           (let event_details = dict_get task ''event''
            in if truthy event_details then
                 (case event_details of
                    JObj ev \<Rightarrow>
                      create_calendar_invite e
                        (if is_str (dict_get ev ''start'') then
                           JObj [(''summary'', dict_get_default ev ''summary'' (JStr ''Meeting'')),
                                 (''start'', JObj [(''dateTime'', dict_get ev ''start''),
                                                   (''timeZone'', JStr ''America/Los_Angeles'')]),
                                 (''end'', JObj [(''dateTime'', dict_get ev ''end''),
                                                 (''timeZone'', JStr ''America/Los_Angeles'')])]
                         else event_details)
                  | _ \<Rightarrow> ([], Inl AttributeError))
               else ([Print DispatchNoEvent], Inr ()))
         else ([Print (DispatchUnknownType task_type)], Inr ())))"

section \<open>Time resolver\<close>

subsection \<open>The regular expression of \<^verbatim>\<open>strptime\<close>\<close>

text \<open>
  \<^verbatim>\<open>datetime.strptime(s, "%Y-%m-%d %H:%M")\<close> matches \<open>s\<close> from its start against
  \<^verbatim>\<open>(\d\d\d\d)-(1[0-2]|0[1-9]|[1-9])-(3[0-1]|[1-2]\d|0[1-9]|[1-9]| [1-9])\s+(2[0-3]|[0-1]\d|\d):([0-5]\d|\d)\<close>
  and raises \<^verbatim>\<open>ValueError\<close> when there is no match or when the match leaves text over.
  A backtracking matcher is a function from the input to the list of its matches in the
  order it tries them, each with the text matched and the rest: the match found is the first
  of the list.
\<close>

type_synonym 'a rx = "string \<Rightarrow> ('a \<times> string) list"

definition rx_return :: "'a \<Rightarrow> 'a rx" where
  "rx_return a s = [(a, s)]"

definition rx_bind :: "'a rx \<Rightarrow> ('a \<Rightarrow> 'b rx) \<Rightarrow> 'b rx" where
  "rx_bind p f s = concat (map (\<lambda>(a, r). f a r) (p s))"

definition rx_alt :: "'a rx \<Rightarrow> 'a rx \<Rightarrow> 'a rx" where
  "rx_alt p q s = p s @ q s"

definition rx_char :: "(char \<Rightarrow> bool) \<Rightarrow> string rx" where
  "rx_char P s = (case s of [] \<Rightarrow> [] | c # cs \<Rightarrow> if P c then [([c], cs)] else [])"

definition rx_cat :: "string rx \<Rightarrow> string rx \<Rightarrow> string rx" where
  "rx_cat p q = rx_bind p (\<lambda>a. rx_bind q (\<lambda>b. rx_return (a @ b)))"

definition between :: "char \<Rightarrow> char \<Rightarrow> char \<Rightarrow> bool" where
  "between lo hi c = ((of_char lo :: nat) \<le> of_char c \<and> (of_char c :: nat) \<le> of_char hi)"

definition lit :: "char \<Rightarrow> string rx" where
  "lit c = rx_char (\<lambda>x. x = c)"

text \<open>Greedy \<^verbatim>\<open>\s*\<close> and \<^verbatim>\<open>\s+\<close>: the longest run first.\<close>

fun re_spaces0 :: "string rx" where
  "re_spaces0 [] = [([], [])]"
| "re_spaces0 (c # cs) =
     (if is_space c then map (\<lambda>(a, r). (c # a, r)) (re_spaces0 cs) else []) @ [([], c # cs)]"

definition re_spaces :: "string rx" where
  "re_spaces = rx_cat (rx_char is_space) re_spaces0"

definition re_Y :: "string rx" where
  "re_Y = rx_cat (rx_char is_digit) (rx_cat (rx_char is_digit)
            (rx_cat (rx_char is_digit) (rx_char is_digit)))"

definition re_m :: "string rx" where
  "re_m = rx_alt (rx_cat (lit (CHR ''1'')) (rx_char (between (CHR ''0'') (CHR ''2''))))
         (rx_alt (rx_cat (lit (CHR ''0'')) (rx_char (between (CHR ''1'') (CHR ''9''))))
                 (rx_char (between (CHR ''1'') (CHR ''9''))))"

definition re_d :: "string rx" where
  "re_d = rx_alt (rx_cat (lit (CHR ''3'')) (rx_char (between (CHR ''0'') (CHR ''1''))))
         (rx_alt (rx_cat (rx_char (between (CHR ''1'') (CHR ''2''))) (rx_char is_digit))
         (rx_alt (rx_cat (lit (CHR ''0'')) (rx_char (between (CHR ''1'') (CHR ''9''))))
         (rx_alt (rx_char (between (CHR ''1'') (CHR ''9'')))
                 (rx_cat (lit (CHR '' '')) (rx_char (between (CHR ''1'') (CHR ''9'')))))))"

definition re_H :: "string rx" where
  "re_H = rx_alt (rx_cat (lit (CHR ''2'')) (rx_char (between (CHR ''0'') (CHR ''3''))))
         (rx_alt (rx_cat (rx_char (between (CHR ''0'') (CHR ''1''))) (rx_char is_digit))
                 (rx_char is_digit))"

definition re_M :: "string rx" where
  "re_M = rx_alt (rx_cat (rx_char (between (CHR ''0'') (CHR ''5''))) (rx_char is_digit))
                 (rx_char is_digit)"

definition format_regex :: "(string \<times> string \<times> string \<times> string \<times> string) rx" where
  "format_regex =
     rx_bind re_Y (\<lambda>Y. rx_bind (lit (CHR ''-'')) (\<lambda>_.
     rx_bind re_m (\<lambda>m. rx_bind (lit (CHR ''-'')) (\<lambda>_.
     rx_bind re_d (\<lambda>d. rx_bind re_spaces (\<lambda>_.
     rx_bind re_H (\<lambda>H. rx_bind (lit (CHR '':'')) (\<lambda>_.
     rx_bind re_M (\<lambda>M. rx_return (Y, m, d, H, M))))))))))"

text \<open>\<^verbatim>\<open>int(s)\<close> on a captured group: digits, after a possible blank.\<close>

definition py_int :: "string \<Rightarrow> nat" where
  "py_int s = foldl (\<lambda>a c. 10 * a + digit_val c) 0 (dropWhile is_space s)"

text \<open>The constructor \<^verbatim>\<open>datetime(y, m, d, H, M)\<close> refuses the year 0 and a day the month
  does not have.\<close>

definition strptime :: "string \<Rightarrow> exc + instant" where
  "strptime s =
     (case format_regex s of
        [] \<Rightarrow> Inl ValueError
      | ((Y, m, d, H, M), rest) # _ \<Rightarrow>
          if rest \<noteq> [] then Inl ValueError
          else if py_int Y < 1 \<or> days_in_month (py_int Y) (py_int m) < py_int d
          then Inl ValueError
          else Inr (Naive \<lparr>year = py_int Y, month = py_int m, day = py_int d,
                           hour = py_int H, minute = py_int M, second = 0, microsecond = 0\<rparr>))"

subsection \<open>The \<^verbatim>\<open>try\<close> block of \<^verbatim>\<open>schedule_task\<close>\<close>

text \<open>
  \<^verbatim>\<open>"T" in task_time_str\<close> is a substring test on a string, a membership test on a list or
  on the keys of a dictionary, and a \<^verbatim>\<open>TypeError\<close> on anything else;
  \<^verbatim>\<open>fromisoformat\<close> raises \<^verbatim>\<open>TypeError\<close> on an argument that is not a string.
\<close>

definition parse_time :: "env \<Rightarrow> datetime \<Rightarrow> json \<Rightarrow> exc + instant" where
  "parse_time e now task_time_str =
     (case task_time_str of
        JStr s \<Rightarrow>
          if CHR ''T'' \<in> set s then fromisoformat e s
          else strptime (str_date now @ '' '' @ s)
      | JArr xs \<Rightarrow>
          if JStr ''T'' \<in> set xs then Inl TypeError
          else strptime (str_date now @ '' '' @ py_str e task_time_str)
      | JObj d \<Rightarrow>
          if ''T'' \<in> set (map fst d) then Inl TypeError
          else strptime (str_date now @ '' '' @ py_str e task_time_str)
      | _ \<Rightarrow> Inl TypeError)"

section \<open>Scheduler\<close>

text \<open>
  The delay is the difference of the two instants in microseconds
  (\<^verbatim>\<open>total_seconds()\<close> divides it by \<open>10\<^sup>6\<close>, which keeps its sign). Subtracting the naive
  \<^verbatim>\<open>now\<close> from an aware instant raises \<^verbatim>\<open>TypeError\<close>, outside the \<^verbatim>\<open>try\<close> block.
\<close>

definition schedule_task :: "env \<Rightarrow> datetime \<Rightarrow> pydict \<Rightarrow> unit outcome" where
  "schedule_task e now task =
     (let task_time_str = dict_get_default task ''time'' (JStr '''')
      in case parse_time e now task_time_str of
           Inl err \<Rightarrow>
             prepend [Print (SchedulerParseError task_time_str err)] (dispatch_task e task)
         | Inr scheduled_time \<Rightarrow>
             (case scheduled_time of
                Aware t off \<Rightarrow> ([], Inl TypeError)
              | Naive t \<Rightarrow>
                  (let delay = to_microseconds t - to_microseconds now;
                       delay = (if dict_get task ''task_type'' = JStr ''calendar_invite''
                                then 0 else delay);
                       delay = (if delay < 0 then 0 else delay)
                   in ([Print (SchedulerScheduling (dict_get task ''task_type'') delay
                                 scheduled_time),
                        ArmTimer delay task], Inr ()))))"

text \<open>The loop \<^verbatim>\<open>for task in tasks: schedule_task(task)\<close> of \<^verbatim>\<open>main\<close>, on the elements of
  a list; \<open>k\<close> counts the readings of the clock. An element that is not a dictionary has no
  \<^verbatim>\<open>get\<close>.\<close>

fun schedule_all :: "env \<Rightarrow> nat \<Rightarrow> json list \<Rightarrow> unit outcome" where
  "schedule_all e k [] = ([], Inr ())"
| "schedule_all e k (t # ts) =
     and_then (case t of JObj task \<Rightarrow> schedule_task e (clock e k) task
                       | _ \<Rightarrow> ([], Inl AttributeError))
              (\<lambda>_. schedule_all e (Suc k) ts)"

section \<open>Parser\<close>

definition prompt_header :: string where
  \<open>prompt_header = concat (map (\<lambda>(s, k). s @ replicate k (CHR 0x0A))
    [(''You are an assistant that parses user instructions about tasks into JSON.'', 2),
     (''The user will provide lines like:'', 1),
     (''- "Remind me to do X at HH:MM"'', 1),
     (''- "Send me the price of NVDA stock via email at HH:MM"'', 1),
     (''- "Add an invite for a meeting on YYYY-MM-DD at HH:MM"'', 2),
     (''Output a JSON array of task objects. Each object has:'', 1),
     (''1) "task_type" : one of ["email_reminder", "stock_price", "calendar_invite"]'', 1),
     (''2) "time" : a string like "17:00" or in ISO format, e.g. "2025-03-15T16:30:00"'', 1),
     (''3) Additional fields depending on the task type:'', 1),
     (''   - For an email_reminder: "email", "subject", "message"'', 1),
     (''   - For a stock_price: "stock_symbol", "email", "subject"'', 1),
     (''   - For a calendar_invite: an "event" object with "summary", "start", and "end"'', 2),
     (''Output valid JSON only, with no extra text. For example:'', 2),
     (''['', 1),
     (''  {'', 1),
     (''    "task_type": "email_reminder",'', 1),
     (''    "email": "someone@gmail.com",'', 1),
     (''    "subject": "Reminder",'', 1),
     (''    "message": "Remind me to do X",'', 1),
     (''    "time": "17:00"'', 1),
     (''  }'', 1),
     ('']'', 2),
     (''Now parse these instructions into JSON:'', 2)])\<close>

text \<open>\<^verbatim>\<open>call_gemini\<close>: the text of the response, stripped; a response without text has no
  \<^verbatim>\<open>strip\<close>.\<close>

definition call_gemini :: "env \<Rightarrow> string \<Rightarrow> string outcome" where
  "call_gemini e prompt =
     ([CallGemini prompt],
      (case generate_content e prompt of
         Inl err \<Rightarrow> Inl err
       | Inr None \<Rightarrow> Inl AttributeError
       | Inr (Some text) \<Rightarrow> Inr (py_strip text)))"

definition startswith :: "string \<Rightarrow> string \<Rightarrow> bool" where
  "startswith s p = (take (length p) s = p)"

definition endswith :: "string \<Rightarrow> string \<Rightarrow> bool" where
  "endswith s p = (length p \<le> length s \<and> drop (length s - length p) s = p)"

definition clean_llm_output :: "string \<Rightarrow> string" where
  "clean_llm_output llm_output =
     (let out = (if startswith llm_output ''```json''
                 then py_strip (drop (length ''```json'') llm_output) else llm_output)
      in if endswith out ''```'' then py_strip (take (length out - 3) out) else out)"

text \<open>\<^verbatim>\<open>parse_tasks\<close>: the handler is for \<^verbatim>\<open>json.JSONDecodeError\<close> only. Any other
  exception of \<^verbatim>\<open>json.loads\<close> (\<^verbatim>\<open>RecursionError\<close> on deep nesting, a plain
  \<^verbatim>\<open>ValueError\<close> on an integer of more than 4300 digits) leaves \<^verbatim>\<open>parse_tasks\<close>; what
  was decoded is returned as it is.\<close>

definition parse_tasks :: "env \<Rightarrow> string \<Rightarrow> json outcome" where
  "parse_tasks e task_text =
     and_then (call_gemini e (prompt_header @ task_text)) (\<lambda>llm_output.
       let llm_output = clean_llm_output llm_output
       in case json_loads e llm_output of
            Inr tasks \<Rightarrow> ([], Inr tasks)
          | Inl err \<Rightarrow>
              if err = JSONDecodeError
              then ([Print ParserInvalidJson, Print (ParserRawOutput llm_output)],
                    Inr (JArr []))
              else ([], Inl err))"

section \<open>The recipient rule in the spec's words\<close>

text \<open>
  ``The operator's own address if the email field is missing or equal, case-insensitively, to
  the literal string unknown; otherwise the given field.'' Equality up to case is stated
  letter by letter, without \<open>py_lower\<close>.
\<close>

definition unknown_ignoring_case :: "string \<Rightarrow> bool" where
  "unknown_ignoring_case s =
     list_all2 (\<lambda>c (lo, up). c = lo \<or> c = up) s (zip ''unknown'' ''UNKNOWN'')"

definition spec_recipient :: "pydict \<Rightarrow> json" where
  "spec_recipient task =
     (case map_of task ''email'' of
        None \<Rightarrow> JStr EMAIL_SENDER
      | Some v \<Rightarrow>
          (case v of
             JStr s \<Rightarrow> if unknown_ignoring_case s then JStr EMAIL_SENDER else v
           | _ \<Rightarrow> v))"

text \<open>The email field is absent or a string.\<close>

definition email_is_text :: "pydict \<Rightarrow> bool" where
  "email_is_text task = (case map_of task ''email'' of None \<Rightarrow> True | Some v \<Rightarrow> is_str v)"

section \<open>Sample environments\<close>

definition wednesday_morning :: datetime where
  "wednesday_morning =
     \<lparr>year = 2026, month = 11, day = 4, hour = 9, minute = 0, second = 0, microsecond = 0\<rparr>"

text \<open>
  Every service answers: the model returns an empty array inside a code fence, the quote is
  120.5, \<^verbatim>\<open>fromisoformat\<close> knows one timestamp without and one with a UTC offset.
\<close>

definition all_services_up :: env where
  "all_services_up =
     \<lparr>generate_content = (\<lambda>prompt. Inr (Some (''```json'' @ [CHR 0x0A] @ ''[]'' @ [CHR 0x0A] @ ''```''))),
      json_loads = (\<lambda>s. if s = ''[]'' then Inr (JArr []) else Inl JSONDecodeError),
      smtp_session = (\<lambda>sender password recipient msg. None),
      market_price = (\<lambda>ticker. Inr (JFloat (Finite (241 / 2)))),
      calendar_insert = (\<lambda>body. Inr (JStr ''https://calendar.example/event'')),
      fromisoformat = (\<lambda>s.
        if s = ''2025-03-15T16:30:00'' then
          Inr (Naive \<lparr>year = 2025, month = 3, day = 15, hour = 16, minute = 30, second = 0,
                       microsecond = 0\<rparr>)
        else if s = ''2025-03-15T16:30:00+00:00'' then
          Inr (Aware \<lparr>year = 2025, month = 3, day = 15, hour = 16, minute = 30, second = 0,
                       microsecond = 0\<rparr> 0)
        else Inl ValueError),
      py_repr = (\<lambda>v. if v = JFloat (Finite (241 / 2)) then ''120.5'' else ''''),
      clock = (\<lambda>k. wednesday_morning)\<rparr>"

text \<open>The quote service, the calendar service and the mail server fail.\<close>

definition executors_down :: env where
  "executors_down =
     all_services_up
       \<lparr>smtp_session := (\<lambda>sender password recipient msg.
                           Some (ExternalError ''SMTPAuthenticationError'')),
        market_price := (\<lambda>ticker. Inl (ExternalError ''ConnectionError'')),
        calendar_insert := (\<lambda>body. Inl (ExternalError ''FileNotFoundError''))\<rparr>"

text \<open>The model answers with valid JSON that is no list of task records.\<close>

definition model_returns_object :: env where
  \<open>model_returns_object =
     all_services_up
       \<lparr>generate_content := (\<lambda>prompt. Inr (Some ''{"error": "no tasks"}'')),
        json_loads := (\<lambda>s. if s = ''{"error": "no tasks"}''
                            then Inr (JObj [(''error'', JStr ''no tasks'')])
                            else Inl JSONDecodeError)\<rparr>\<close>

section \<open>Sequencing of outcomes\<close>

lemma prepend_simps: "prepend es (tr, r) = (es @ tr, r)"
  by (simp add: prepend_def)

lemma prepend_prepend: "prepend xs (prepend ys r) = prepend (xs @ ys) r"
  by (simp add: prepend_def)

lemma and_then_Inr: "and_then (tr, Inr a) f = prepend tr (f a)"
  by (simp add: and_then_def)

lemma and_then_Inl: "and_then (tr, Inl x) f = (tr, Inl x)"
  by (simp add: and_then_def)

lemma and_then_lift_Inr: "and_then (lift (Inr a)) f = f a"
  by (simp add: and_then_def lift_def prepend_def)

lemma and_then_lift_Inl: "and_then (lift (Inl x)) f = ([], Inl x)"
  by (simp add: and_then_def lift_def)

section \<open>Decimal numerals\<close>

lemma lt10_cases: "n < 10 \<Longrightarrow> n \<in> {0, 1, 2, 3, 4, 5, 6, 7, 8, 9::nat}"
  by auto

lemma digit_char_props:
  assumes "n < 10"
  shows "is_digit (digit_char n)" and "digit_val (digit_char n) = n"
    and "\<not> is_space (digit_char n)"
    and "digit_char n \<noteq> CHR ''-''" and "digit_char n \<noteq> CHR '':''" and "digit_char n \<noteq> CHR '' ''"
  using lt10_cases [OF assms]
  by (auto simp: digit_char_def is_digit_def digit_val_def is_space_def)

lemma digit_char_not_T: "n < 10 \<Longrightarrow> CHR ''T'' \<noteq> digit_char n"
  using lt10_cases [of n] by (auto simp: digit_char_def)

lemma digit_char_0: "digit_char 0 = CHR ''0''"
  by (simp add: digit_char_def)

lemma dec_lt10: "n < 10 \<Longrightarrow> dec n = [digit_char n]"
  by (subst dec.simps) simp

lemma dec_lt100: "10 \<le> n \<Longrightarrow> n < 100 \<Longrightarrow> dec n = [digit_char (n div 10), digit_char (n mod 10)]"
  by (subst dec.simps) (simp add: dec_lt10)

lemma dec_lt1000:
  "100 \<le> n \<Longrightarrow> n < 1000 \<Longrightarrow>
   dec n = [digit_char (n div 100), digit_char (n div 10 mod 10), digit_char (n mod 10)]"
  by (subst dec.simps) (simp add: dec_lt100 div_mult2_eq [symmetric])

lemma dec_lt10000:
  "1000 \<le> n \<Longrightarrow> n < 10000 \<Longrightarrow>
   dec n = [digit_char (n div 1000), digit_char (n div 100 mod 10),
            digit_char (n div 10 mod 10), digit_char (n mod 10)]"
  by (subst dec.simps) (simp add: dec_lt1000 div_mult2_eq [symmetric])

lemma replicate_small:
  "replicate 1 x = [x]" "replicate 2 x = [x, x]" "replicate 3 x = [x, x, x]"
  by (simp_all add: numeral_eq_Suc)

lemma zpad2: "n < 100 \<Longrightarrow> zpad 2 n = [digit_char (n div 10), digit_char (n mod 10)]"
  by (cases "n < 10") (simp_all add: zpad_def dec_lt10 dec_lt100 digit_char_0)

lemma zpad4:
  assumes "n < 10000"
  shows "zpad 4 n = [digit_char (n div 1000), digit_char (n div 100 mod 10),
                     digit_char (n div 10 mod 10), digit_char (n mod 10)]"
proof -
  consider "n < 10" | "10 \<le> n" "n < 100" | "100 \<le> n" "n < 1000" | "1000 \<le> n"
    by linarith
  then show ?thesis
  proof cases
    case 1 then show ?thesis by (simp add: zpad_def dec_lt10 digit_char_0 replicate_small)
  next
    case 2 then show ?thesis
      by (simp add: zpad_def dec_lt100 digit_char_0 replicate_small)
  next
    case 3 then show ?thesis
      by (simp add: zpad_def dec_lt1000 digit_char_0 replicate_small)
  next
    case 4 with assms show ?thesis by (simp add: zpad_def dec_lt10000)
  qed
qed

lemma py_int_2: "a < 10 \<Longrightarrow> b < 10 \<Longrightarrow> py_int [digit_char a, digit_char b] = 10 * a + b"
  by (simp add: py_int_def digit_char_props)

lemma py_int_zpad2: "n < 100 \<Longrightarrow> py_int (zpad 2 n) = n"
  by (simp add: zpad2 py_int_2)

lemma four_digits:
  "10 * (10 * (10 * (y div 1000) + y div 100 mod 10) + y div 10 mod 10) + y mod 10 = (y::nat)"
proof -
  have a: "y div 100 = y div 10 div 10" and b: "y div 1000 = y div 10 div 10 div 10"
    by (simp_all add: div_mult2_eq [symmetric])
  have "10 * (y div 10 div 10 div 10) + y div 10 div 10 mod 10 = y div 10 div 10"
    by (rule mult_div_mod_eq)
  moreover have "10 * (y div 10 div 10) + y div 10 mod 10 = y div 10"
    by (rule mult_div_mod_eq)
  moreover have "10 * (y div 10) + y mod 10 = y"
    by (rule mult_div_mod_eq)
  ultimately show ?thesis
    unfolding a b by simp
qed

lemma py_int_4:
  assumes "y < 10000"
  shows "py_int (zpad 4 y) = y"
proof -
  have a: "y div 1000 < 10" "y div 100 mod 10 < 10" "y div 10 mod 10 < 10" "y mod 10 < 10"
    using assms by auto
  show ?thesis
    using four_digits [of y]
    by (simp add: zpad4 [OF assms] py_int_def digit_char_props [OF a(1)]
          digit_char_props [OF a(2)] digit_char_props [OF a(3)] digit_char_props [OF a(4)])
qed

section \<open>The regular expression on the date of today and a clock time\<close>

text \<open>
  Each group of the expression, followed by what stands after it in the format, has one way
  to match the zero-padded numeral it is given; \<open>k\<close> is the rest of the expression.
\<close>

lemmas rx_defs = rx_bind_def rx_alt_def rx_char_def rx_cat_def rx_return_def lit_def

lemma step_Y:
  "is_digit a \<Longrightarrow> is_digit b \<Longrightarrow> is_digit c \<Longrightarrow> is_digit d \<Longrightarrow>
   rx_bind re_Y k (a # b # c # d # r) = k [a, b, c, d] r"
  by (simp add: re_Y_def rx_defs)

lemma step_lit: "rx_bind (lit c) k (c # r) = k [c] r"
  by (simp add: rx_defs)

lemma month_cases: "1 \<le> m \<Longrightarrow> m \<le> 12 \<Longrightarrow> m \<in> {1, 2, 3, 4, 5, 6, 7, 8, 9, 10, 11, 12::nat}"
  by (simp add: insert_iff) arith

lemma step_m:
  assumes "1 \<le> m" "m \<le> 12"
  shows "rx_bind re_m (\<lambda>t. rx_bind (lit (CHR ''-'')) (k t)) (zpad 2 m @ CHR ''-'' # r)
           = k (zpad 2 m) ''-'' r"
    and "py_int (zpad 2 m) = m"
  using month_cases [OF assms]
  by (auto simp: zpad2 digit_char_def re_m_def rx_defs between_def py_int_def digit_val_def
        is_space_def)

lemma day_cases:
  "1 \<le> d \<Longrightarrow> d \<le> 31 \<Longrightarrow>
   d \<in> {1, 2, 3, 4, 5, 6, 7, 8, 9, 10, 11, 12, 13, 14, 15, 16, 17, 18, 19, 20,
        21, 22, 23, 24, 25, 26, 27, 28, 29, 30, 31::nat}"
  by (simp add: insert_iff) arith

lemma re_spaces_one:
  "\<not> is_space c \<Longrightarrow> rx_bind re_spaces k (CHR '' '' # c # r) = k '' '' (c # r)"
  by (simp add: re_spaces_def rx_defs is_space_def)

lemma step_d:
  assumes "1 \<le> d" "d \<le> 31" "\<not> is_space c"
  shows "rx_bind re_d (\<lambda>t. rx_bind re_spaces (k t)) (zpad 2 d @ CHR '' '' # c # r)
           = k (zpad 2 d) '' '' (c # r)"
    and "py_int (zpad 2 d) = d"
  using day_cases [OF assms(1,2)] assms(3)
  by (elim insertE emptyE;
      simp add: zpad2 digit_char_def re_d_def re_spaces_def rx_defs between_def py_int_def
        digit_val_def is_space_def is_digit_def)+

lemma step_d_hour:
  assumes "1 \<le> d" "d \<le> 31" "h < 100"
  shows "rx_bind re_d (\<lambda>t. rx_bind re_spaces (k t)) (zpad 2 d @ CHR '' '' # zpad 2 h @ r)
           = k (zpad 2 d) '' '' (zpad 2 h @ r)"
proof -
  have "h div 10 < 10" using assms(3) by simp
  then have "\<not> is_space (digit_char (h div 10))" by (rule digit_char_props)
  then show ?thesis
    using assms by (simp add: zpad2 [of h] step_d(1))
qed

lemma hour_cases:
  "h < 24 \<Longrightarrow>
   h \<in> {0, 1, 2, 3, 4, 5, 6, 7, 8, 9, 10, 11, 12, 13, 14, 15, 16, 17, 18, 19, 20,
        21, 22, 23::nat}"
  by (simp add: insert_iff) arith

lemma step_H:
  assumes "h < 24"
  shows "rx_bind re_H (\<lambda>t. rx_bind (lit (CHR '':'')) (k t)) (zpad 2 h @ CHR '':'' # r)
           = k (zpad 2 h) '':'' r"
    and "py_int (zpad 2 h) = h"
    and "\<not> is_space (hd (zpad 2 h))"
  using hour_cases [OF assms]
  by (elim insertE emptyE;
      simp add: zpad2 digit_char_def re_H_def rx_defs between_def py_int_def
        digit_val_def is_space_def is_digit_def)+

lemma lt6_cases: "n < 6 \<Longrightarrow> n \<in> {0, 1, 2, 3, 4, 5::nat}"
  by auto

lemma between_0_5: "n < 6 \<Longrightarrow> between (CHR ''0'') (CHR ''5'') (digit_char n)"
  using lt6_cases [of n] by (auto simp: between_def digit_char_def)

lemma step_M:
  assumes "m < 60"
  shows "rx_bind re_M k (zpad 2 m) =
           k (zpad 2 m) [] @ k [digit_char (m div 10)] [digit_char (m mod 10)]"
    and "py_int (zpad 2 m) = m"
proof -
  have a: "m div 10 < 6" "m div 10 < 10" "m mod 10 < 10" using assms by auto
  show "rx_bind re_M k (zpad 2 m) =
           k (zpad 2 m) [] @ k [digit_char (m div 10)] [digit_char (m mod 10)]"
    using assms a by (simp add: zpad2 re_M_def rx_defs between_0_5 digit_char_props)
  show "py_int (zpad 2 m) = m"
    using assms a by (simp add: zpad2 py_int_2)
qed

lemma days_in_month_le: "days_in_month y m \<le> 31"
  by (simp add: days_in_month_def)

lemma format_regex_today:
  assumes "1 \<le> y" "y \<le> 9999" "1 \<le> m" "m \<le> 12" "1 \<le> d" "d \<le> 31" "hh < 24" "mm < 60"
  shows "format_regex (zpad 4 y @ ''-'' @ zpad 2 m @ ''-'' @ zpad 2 d @ '' '' @ zpad 2 hh
                         @ '':'' @ zpad 2 mm)
         = [((zpad 4 y, zpad 2 m, zpad 2 d, zpad 2 hh, zpad 2 mm), []),
            ((zpad 4 y, zpad 2 m, zpad 2 d, zpad 2 hh, [digit_char (mm div 10)]),
             [digit_char (mm mod 10)])]"
proof -
  have y: "y < 10000" using assms by simp
  have dg: "y div 1000 < 10" "y div 100 mod 10 < 10" "y div 10 mod 10 < 10" "y mod 10 < 10"
    using y by auto
  have hh: "hh < 100" using assms by simp
  have Y: "rx_bind re_Y k (zpad 4 y @ r) = k (zpad 4 y) r" for k :: "string \<Rightarrow> 'a rx" and r
    by (simp add: zpad4 [OF y] step_Y digit_char_props [OF dg(1)] digit_char_props [OF dg(2)]
          digit_char_props [OF dg(3)] digit_char_props [OF dg(4)])
  show ?thesis
    unfolding format_regex_def
    by (simp add: Y step_lit step_m(1) [OF assms(3,4)] step_d_hour [OF assms(5,6) hh]
          step_H(1) [OF assms(7)] step_M(1) [OF assms(8)] rx_return_def)
qed

lemma strptime_today:
  assumes "valid_datetime now" "hh < 24" "mm < 60"
  shows "strptime (str_date now @ '' '' @ zpad 2 hh @ '':'' @ zpad 2 mm) =
           Inr (Naive \<lparr>year = year now, month = month now, day = day now,
                        hour = hh, minute = mm, second = 0, microsecond = 0\<rparr>)"
proof -
  from assms(1) have v: "1 \<le> year now" "year now \<le> 9999" "1 \<le> month now" "month now \<le> 12"
    "1 \<le> day now" "day now \<le> days_in_month (year now) (month now)"
    by (simp_all add: valid_datetime_def)
  from v(6) have d31: "day now \<le> 31" using days_in_month_le order_trans by blast
  have y: "year now < 10000" using v(2) by simp
  have p: "py_int (zpad 2 (month now)) = month now" "py_int (zpad 2 (day now)) = day now"
    "py_int (zpad 2 hh) = hh" "py_int (zpad 2 mm) = mm"
    using v(4) d31 assms(2,3) by (simp_all add: py_int_zpad2)
  show ?thesis
    using v
    by (simp add: strptime_def str_date_def
          format_regex_today [OF v(1,2,3,4,5) d31 assms(2,3), simplified]
          py_int_4 [OF y] p)
qed

lemma no_T_in_clock_time:
  assumes "hh < 24" "mm < 60"
  shows "CHR ''T'' \<notin> set (zpad 2 hh @ '':'' @ zpad 2 mm)"
proof -
  have "hh div 10 < 10" "hh mod 10 < 10" "mm div 10 < 10" "mm mod 10 < 10" "hh < 100" "mm < 100"
    using assms by auto
  then show ?thesis
    by (simp add: zpad2 digit_char_not_T)
qed

lemma parse_time_clock:
  assumes "valid_datetime now" "hh < 24" "mm < 60"
  shows "parse_time e now (JStr (zpad 2 hh @ '':'' @ zpad 2 mm)) =
           Inr (Naive \<lparr>year = year now, month = month now, day = day now,
                        hour = hh, minute = mm, second = 0, microsecond = 0\<rparr>)"
  using no_T_in_clock_time [OF assms(2,3)] strptime_today [OF assms]
  by (simp add: parse_time_def)

section \<open>Lower case\<close>

lemma of_char_lower:
  "(of_char (py_lower_char c) :: nat) =
     (if (65 \<le> (of_char c :: nat) \<and> (of_char c :: nat) \<le> 90) \<or>
         (192 \<le> (of_char c :: nat) \<and> (of_char c :: nat) \<le> 222 \<and> (of_char c :: nat) \<noteq> 215)
      then of_char c + 32 else of_char c)"
  by (auto simp: py_lower_char_def Let_def)

lemma lower_char_eq:
  assumes "(of_char l :: nat) = k" "(of_char u :: nat) + 32 = k" "97 \<le> k" "k \<le> 122"
  shows "py_lower_char c = l \<longleftrightarrow> c = l \<or> c = u"
proof -
  have "py_lower_char c = l \<longleftrightarrow> (of_char (py_lower_char c) :: nat) = of_char l"
    by (simp only: of_char_eq_iff)
  also have "\<dots> \<longleftrightarrow> (of_char c :: nat) = k \<or> (of_char c :: nat) + 32 = k"
    using assms unfolding of_char_lower by auto
  also have "\<dots> \<longleftrightarrow> (of_char c :: nat) = of_char l \<or> (of_char c :: nat) = of_char u"
    using assms(1,2) by arith
  also have "\<dots> \<longleftrightarrow> c = l \<or> c = u"
    by (simp only: of_char_eq_iff)
  finally show ?thesis .
qed

lemma lower_u: "py_lower_char c = CHR ''u'' \<longleftrightarrow> c = CHR ''u'' \<or> c = CHR ''U''"
  by (rule lower_char_eq [where k = 117]) simp_all

lemma lower_n: "py_lower_char c = CHR ''n'' \<longleftrightarrow> c = CHR ''n'' \<or> c = CHR ''N''"
  by (rule lower_char_eq [where k = 110]) simp_all

lemma lower_k: "py_lower_char c = CHR ''k'' \<longleftrightarrow> c = CHR ''k'' \<or> c = CHR ''K''"
  by (rule lower_char_eq [where k = 107]) simp_all

lemma lower_o: "py_lower_char c = CHR ''o'' \<longleftrightarrow> c = CHR ''o'' \<or> c = CHR ''O''"
  by (rule lower_char_eq [where k = 111]) simp_all

lemma lower_w: "py_lower_char c = CHR ''w'' \<longleftrightarrow> c = CHR ''w'' \<or> c = CHR ''W''"
  by (rule lower_char_eq [where k = 119]) simp_all

lemmas lower_letters = lower_u lower_n lower_k lower_o lower_w

lemma lower_unknown: "py_lower s = ''unknown'' \<longleftrightarrow> unknown_ignoring_case s"
  by (auto simp: py_lower_def unknown_ignoring_case_def lower_letters list_all2_Cons2
        map_eq_Cons_conv)

lemma lower_method_text:
  "lower_method (JStr s) = Inr (py_lower s)"
  by (simp add: lower_method_def)

section \<open>Executors\<close>

text \<open>
  The mail executor returns normally whatever the mail server does; a failure of the quote
  service or of the calendar service leaves its executor as an exception.
\<close>

lemma send_email_returns: "snd (send_email e s p r subj m) = Inr ()"
  by (simp add: send_email_def Let_def)

lemma smtp_failure_is_caught:
  assumes "smtp_session e sender password recipient
             (''Subject: '' @ py_str e subject @ [CHR 0x0A, CHR 0x0A] @ py_str e message)
           = Some err"
  shows "send_email e sender password recipient subject message =
           ([SendEmail sender password recipient subject message, Print (EmailFailed err)],
            Inr ())"
  using assms by (simp add: send_email_def Let_def)

lemma calendar_failure_propagates:
  assumes "calendar_insert e body = Inl err"
  shows "create_calendar_invite e body = ([CreateCalendarInvite body], Inl err)"
  using assms by (simp add: create_calendar_invite_def)

lemma quote_failure_propagates:
  assumes "dict_get task ''task_type'' = JStr ''stock_price''"
    and "market_price e (dict_get_default task ''stock_symbol'' (JStr ''AAPL'')) = Inl err"
  shows "dispatch_task e task =
           ([Print (DispatchExecuting task),
             GetStockPrice (dict_get_default task ''stock_symbol'' (JStr ''AAPL''))], Inl err)"
  using assms
  by (simp add: dispatch_task_def get_stock_price_def and_then_Inl prepend_def Let_def)

section \<open>Dispatcher\<close>

text \<open>
  Claim C9. A task whose \<^verbatim>\<open>task_type\<close> is none of \<^verbatim>\<open>email_reminder\<close>,
  \<^verbatim>\<open>stock_price\<close>, \<^verbatim>\<open>calendar_invite\<close> (absent included: then it is \<open>JNull\<close>)
  makes the Dispatcher print the task and a line naming the unknown type, call no executor
  and return normally.
\<close>

theorem dispatch_unknown_type:
  assumes "dict_get task ''task_type'' \<noteq> JStr ''email_reminder''"
    and "dict_get task ''task_type'' \<noteq> JStr ''stock_price''"
    and "dict_get task ''task_type'' \<noteq> JStr ''calendar_invite''"
  shows "dispatch_task e task =
           ([Print (DispatchExecuting task),
             Print (DispatchUnknownType (dict_get task ''task_type''))], Inr ())"
  using assms by (simp add: dispatch_task_def prepend_def)

theorem dispatch_unknown_type_witness:
  "dict_get [(''task_type'', JStr ''frobnicate'')] ''task_type'' \<noteq> JStr ''email_reminder'' \<and>
   dict_get [(''task_type'', JStr ''frobnicate'')] ''task_type'' \<noteq> JStr ''stock_price'' \<and>
   dict_get [(''task_type'', JStr ''frobnicate'')] ''task_type'' \<noteq> JStr ''calendar_invite'' \<and>
   dispatch_task all_services_up [(''task_type'', JStr ''frobnicate'')] =
     ([Print (DispatchExecuting [(''task_type'', JStr ''frobnicate'')]),
       Print (DispatchUnknownType (JStr ''frobnicate''))], Inr ())"
  using dispatch_unknown_type [of "[(''task_type'', JStr ''frobnicate'')]" all_services_up]
  by (simp add: dict_get_def)

text \<open>
  Claim C10. When the event of a \<^verbatim>\<open>calendar_invite\<close> task has a \<^verbatim>\<open>start\<close> that is
  present and not a string, the calendar executor receives the event exactly as it came:
  no default title, no time zone, whatever \<^verbatim>\<open>summary\<close> and \<^verbatim>\<open>end\<close> are.
\<close>

theorem dispatch_structured_start:
  assumes "dict_get task ''task_type'' = JStr ''calendar_invite''"
    and "map_of task ''event'' = Some (JObj ev)"
    and "map_of ev ''start'' = Some v"
    and "\<not> is_str v"
  shows "dispatch_task e task =
           prepend [Print (DispatchExecuting task)] (create_calendar_invite e (JObj ev))"
proof -
  from assms(3) have "ev \<noteq> []" by auto
  with assms show ?thesis
    by (simp add: dispatch_task_def dict_get_def)
qed

theorem dispatch_structured_start_witness:
  "dict_get [(''task_type'', JStr ''calendar_invite''),
             (''event'', JObj [(''start'', JObj [(''dateTime'', JStr ''2026-11-05T10:00:00''),
                                                 (''timeZone'', JStr ''Europe/Paris'')]),
                               (''end'', JStr ''2026-11-05T11:00:00'')])] ''task_type''
     = JStr ''calendar_invite'' \<and>
   \<not> is_str (JObj [(''dateTime'', JStr ''2026-11-05T10:00:00''),
                    (''timeZone'', JStr ''Europe/Paris'')]) \<and>
   dispatch_task all_services_up
     [(''task_type'', JStr ''calendar_invite''),
      (''event'', JObj [(''start'', JObj [(''dateTime'', JStr ''2026-11-05T10:00:00''),
                                          (''timeZone'', JStr ''Europe/Paris'')]),
                        (''end'', JStr ''2026-11-05T11:00:00'')])]
     = ([Print (DispatchExecuting
           [(''task_type'', JStr ''calendar_invite''),
            (''event'', JObj [(''start'', JObj [(''dateTime'', JStr ''2026-11-05T10:00:00''),
                                                (''timeZone'', JStr ''Europe/Paris'')]),
                              (''end'', JStr ''2026-11-05T11:00:00'')])]),
         CreateCalendarInvite
           (JObj [(''start'', JObj [(''dateTime'', JStr ''2026-11-05T10:00:00''),
                                    (''timeZone'', JStr ''Europe/Paris'')]),
                  (''end'', JStr ''2026-11-05T11:00:00'')]),
         Print (EventCreated (JStr ''https://calendar.example/event''))], Inr ())"
  using dispatch_structured_start
    [of "[(''task_type'', JStr ''calendar_invite''),
          (''event'', JObj [(''start'', JObj [(''dateTime'', JStr ''2026-11-05T10:00:00''),
                                              (''timeZone'', JStr ''Europe/Paris'')]),
                            (''end'', JStr ''2026-11-05T11:00:00'')])]"
        "[(''start'', JObj [(''dateTime'', JStr ''2026-11-05T10:00:00''),
                            (''timeZone'', JStr ''Europe/Paris'')]),
          (''end'', JStr ''2026-11-05T11:00:00'')]"
        "JObj [(''dateTime'', JStr ''2026-11-05T10:00:00''), (''timeZone'', JStr ''Europe/Paris'')]"
        all_services_up]
  by (simp add: dict_get_def create_calendar_invite_def all_services_up_def prepend_def)

text \<open>
  Claim C6. When \<^verbatim>\<open>start\<close> and \<^verbatim>\<open>end\<close> of the event are plain strings, the payload
  handed to the calendar executor has \<^verbatim>\<open>start.dateTime\<close> and \<^verbatim>\<open>end.dateTime\<close> equal to
  those strings, and \<^verbatim>\<open>America/Los_Angeles\<close> as the time zone of both.
\<close>

theorem dispatch_plain_start_end:
  assumes "dict_get task ''task_type'' = JStr ''calendar_invite''"
    and "map_of task ''event'' = Some (JObj ev)"
    and "map_of ev ''start'' = Some (JStr s)"
    and "map_of ev ''end'' = Some (JStr en)"
  shows "dispatch_task e task =
           prepend [Print (DispatchExecuting task)]
             (create_calendar_invite e
                (JObj [(''summary'', dict_get_default ev ''summary'' (JStr ''Meeting'')),
                       (''start'', JObj [(''dateTime'', JStr s),
                                         (''timeZone'', JStr ''America/Los_Angeles'')]),
                       (''end'', JObj [(''dateTime'', JStr en),
                                       (''timeZone'', JStr ''America/Los_Angeles'')])]))"
proof -
  from assms(3) have "ev \<noteq> []" by auto
  with assms show ?thesis
    by (simp add: dispatch_task_def dict_get_def)
qed

theorem dispatch_plain_start_end_witness:
  "dict_get [(''task_type'', JStr ''calendar_invite''),
             (''event'', JObj [(''start'', JStr ''2026-11-05T10:00:00''),
                               (''end'', JStr ''2026-11-05T11:00:00'')])] ''task_type''
     = JStr ''calendar_invite'' \<and>
   dispatch_task all_services_up
     [(''task_type'', JStr ''calendar_invite''),
      (''event'', JObj [(''start'', JStr ''2026-11-05T10:00:00''),
                        (''end'', JStr ''2026-11-05T11:00:00'')])]
     = ([Print (DispatchExecuting
           [(''task_type'', JStr ''calendar_invite''),
            (''event'', JObj [(''start'', JStr ''2026-11-05T10:00:00''),
                              (''end'', JStr ''2026-11-05T11:00:00'')])]),
         CreateCalendarInvite
           (JObj [(''summary'', JStr ''Meeting''),
                  (''start'', JObj [(''dateTime'', JStr ''2026-11-05T10:00:00''),
                                    (''timeZone'', JStr ''America/Los_Angeles'')]),
                  (''end'', JObj [(''dateTime'', JStr ''2026-11-05T11:00:00''),
                                  (''timeZone'', JStr ''America/Los_Angeles'')])]),
         Print (EventCreated (JStr ''https://calendar.example/event''))], Inr ())"
  using dispatch_plain_start_end
    [of "[(''task_type'', JStr ''calendar_invite''),
          (''event'', JObj [(''start'', JStr ''2026-11-05T10:00:00''),
                            (''end'', JStr ''2026-11-05T11:00:00'')])]"
        "[(''start'', JStr ''2026-11-05T10:00:00''), (''end'', JStr ''2026-11-05T11:00:00'')]"
        "''2026-11-05T10:00:00''" "''2026-11-05T11:00:00''" all_services_up]
  by (simp add: dict_get_def dict_get_default_def create_calendar_invite_def
        all_services_up_def prepend_def)

text \<open>
  An \<^verbatim>\<open>email_reminder\<close> task whose email field is absent or a string: the Dispatcher calls
  the mail executor once, with the recipient of the spec's rule (\<open>spec_recipient\<close>: the
  operator's address when the field is absent or is \<^verbatim>\<open>unknown\<close> in any case, the field
  otherwise), the subject (\<^verbatim>\<open>Reminder\<close> when absent) and the message (empty when absent).
\<close>

lemma email_reminder_resolution:
  assumes "dict_get task ''task_type'' = JStr ''email_reminder''"
    and "email_is_text task"
  shows "dispatch_task e task =
           prepend [Print (DispatchExecuting task)]
             (send_email e EMAIL_SENDER EMAIL_PASSWORD (spec_recipient task)
                (dict_get_default task ''subject'' (JStr ''Reminder''))
                (dict_get_default task ''message'' (JStr '''')))"
proof (cases "map_of task ''email''")
  case None
  have "py_lower EMAIL_SENDER \<noteq> ''unknown''"
    by (simp add: EMAIL_SENDER_def py_lower_def)
  with None assms(1) show ?thesis
    by (simp add: dispatch_task_def dict_get_default_def spec_recipient_def lower_method_text
          and_then_lift_Inr Let_def)
next
  case (Some v)
  with assms(2) obtain s where v: "v = JStr s"
    by (cases v) (simp_all add: email_is_text_def)
  with Some assms(1) show ?thesis
    by (simp add: dispatch_task_def dict_get_default_def spec_recipient_def lower_method_text
          and_then_lift_Inr Let_def lower_unknown)
qed

lemma email_reminder_resolution_example:
  "dict_get [(''task_type'', JStr ''email_reminder''), (''email'', JStr ''UNKNOWN'')] ''task_type''
     = JStr ''email_reminder'' \<and>
   email_is_text [(''task_type'', JStr ''email_reminder''), (''email'', JStr ''UNKNOWN'')] \<and>
   dispatch_task all_services_up
     [(''task_type'', JStr ''email_reminder''), (''email'', JStr ''UNKNOWN'')]
     = ([Print (DispatchExecuting
           [(''task_type'', JStr ''email_reminder''), (''email'', JStr ''UNKNOWN'')]),
         SendEmail EMAIL_SENDER EMAIL_PASSWORD (JStr EMAIL_SENDER) (JStr ''Reminder'') (JStr ''''),
         Print (EmailSent (JStr EMAIL_SENDER))], Inr ())"
  using email_reminder_resolution
    [of "[(''task_type'', JStr ''email_reminder''), (''email'', JStr ''UNKNOWN'')]"
        all_services_up]
  by (simp add: dict_get_def dict_get_default_def email_is_text_def spec_recipient_def
        unknown_ignoring_case_def send_email_def all_services_up_def prepend_def)

text \<open>
  Claim C4 at an email field that is present and null:
  \<^verbatim>\<open>{"task_type": "email_reminder", "email": null}\<close>. The comment above the lookup
  promises the sender's address for an email that is unknown or missing, but
  \<^verbatim>\<open>task.get("email", EMAIL_SENDER)\<close> returns \<^verbatim>\<open>None\<close> for a null field and
  \<^verbatim>\<open>email.lower()\<close> raises \<^verbatim>\<open>AttributeError\<close>: the recipient is not resolved, the mail
  executor is not called, and the exception leaves \<^verbatim>\<open>dispatch_task\<close>.
\<close>

theorem null_email_raises:
  "dispatch_task all_services_up [(''task_type'', JStr ''email_reminder''), (''email'', JNull)]
     = ([Print (DispatchExecuting
           [(''task_type'', JStr ''email_reminder''), (''email'', JNull)])],
        Inl AttributeError)"
  by (simp add: dispatch_task_def dict_get_def dict_get_default_def lower_method_def
        and_then_lift_Inl prepend_def)

text \<open>
  Claim C5, as the code has it. For a \<^verbatim>\<open>stock_price\<close> task whose email field is absent or
  a string and whose quote lookup returns, the recipient follows the same rule as for
  \<^verbatim>\<open>email_reminder\<close>; the subject is the subject field or, when it is absent,
  \<^verbatim>\<open>Stock Price Update for\<close> followed by the ticker; the message embeds ticker and price.
\<close>

theorem stock_price_resolution:
  assumes "dict_get task ''task_type'' = JStr ''stock_price''"
    and "email_is_text task"
    and "market_price e (dict_get_default task ''stock_symbol'' (JStr ''AAPL'')) = Inr quote"
  shows "dispatch_task e task =
           (let ticker = dict_get_default task ''stock_symbol'' (JStr ''AAPL'');
                price = (if quote = JNull then JStr ''Price not available'' else quote)
            in prepend [Print (DispatchExecuting task), GetStockPrice ticker]
                 (send_email e EMAIL_SENDER EMAIL_PASSWORD (spec_recipient task)
                    (dict_get_default task ''subject''
                       (JStr (''Stock Price Update for '' @ py_str e ticker)))
                    (JStr (''The current price for '' @ py_str e ticker @ '' is ''
                             @ py_str e price))))"
proof (cases "map_of task ''email''")
  case None
  have "py_lower EMAIL_SENDER \<noteq> ''unknown''"
    by (simp add: EMAIL_SENDER_def py_lower_def)
  with None assms(1,3) show ?thesis
    by (simp add: dispatch_task_def dict_get_default_def spec_recipient_def lower_method_text
          and_then_lift_Inr Let_def get_stock_price_def and_then_Inr prepend_prepend)
next
  case (Some v)
  with assms(2) obtain s where v: "v = JStr s"
    by (cases v) (simp_all add: email_is_text_def)
  with Some assms(1,3) show ?thesis
    by (simp add: dispatch_task_def dict_get_default_def spec_recipient_def lower_method_text
          and_then_lift_Inr Let_def lower_unknown get_stock_price_def and_then_Inr
          prepend_prepend)
qed

theorem stock_price_resolution_witness:
  "dict_get [(''task_type'', JStr ''stock_price''), (''stock_symbol'', JStr ''NVDA''),
             (''email'', JStr ''Unknown''), (''subject'', JStr ''Quote'')] ''task_type''
     = JStr ''stock_price'' \<and>
   email_is_text [(''task_type'', JStr ''stock_price''), (''stock_symbol'', JStr ''NVDA''),
                  (''email'', JStr ''Unknown''), (''subject'', JStr ''Quote'')] \<and>
   market_price all_services_up (JStr ''NVDA'') = Inr (JFloat (Finite (241 / 2))) \<and>
   dispatch_task all_services_up
     [(''task_type'', JStr ''stock_price''), (''stock_symbol'', JStr ''NVDA''),
      (''email'', JStr ''Unknown''), (''subject'', JStr ''Quote'')]
     = ([Print (DispatchExecuting
           [(''task_type'', JStr ''stock_price''), (''stock_symbol'', JStr ''NVDA''),
            (''email'', JStr ''Unknown''), (''subject'', JStr ''Quote'')]),
         GetStockPrice (JStr ''NVDA''),
         SendEmail EMAIL_SENDER EMAIL_PASSWORD (JStr EMAIL_SENDER) (JStr ''Quote'')
           (JStr ''The current price for NVDA is 120.5''),
         Print (EmailSent (JStr EMAIL_SENDER))], Inr ())"
  using stock_price_resolution
    [of "[(''task_type'', JStr ''stock_price''), (''stock_symbol'', JStr ''NVDA''),
          (''email'', JStr ''Unknown''), (''subject'', JStr ''Quote'')]"
        all_services_up "JFloat (Finite (241 / 2))"]
  by (simp add: dict_get_def dict_get_default_def email_is_text_def spec_recipient_def
        unknown_ignoring_case_def send_email_def all_services_up_def prepend_def py_str_def
        Let_def)

text \<open>
  Claim C5 as it is written fails: a \<^verbatim>\<open>stock_price\<close> task with no subject field is sent
  with the subject \<^verbatim>\<open>Stock Price Update for AAPL\<close>, not \<^verbatim>\<open>Reminder\<close>.
\<close>

theorem stock_subject_counterexample:
  "dispatch_task all_services_up [(''task_type'', JStr ''stock_price'')]
     = ([Print (DispatchExecuting [(''task_type'', JStr ''stock_price'')]),
         GetStockPrice (JStr ''AAPL''),
         SendEmail EMAIL_SENDER EMAIL_PASSWORD (JStr EMAIL_SENDER)
           (JStr ''Stock Price Update for AAPL'')
           (JStr ''The current price for AAPL is 120.5''),
         Print (EmailSent (JStr EMAIL_SENDER))], Inr ())"
  by (simp add: dispatch_task_def dict_get_def dict_get_default_def lower_method_def
        and_then_lift_Inr and_then_Inr prepend_def get_stock_price_def send_email_def
        all_services_up_def py_str_def py_lower_def EMAIL_SENDER_def Let_def)

section \<open>Scheduler\<close>

text \<open>
  Claim C7. For a time field \<^verbatim>\<open>HH:MM\<close> with \<open>HH < 24\<close> and \<open>MM < 60\<close>, the resolved
  instant is the date of \<open>now\<close> at that hour and minute, seconds zero: it is the instant the
  scheduling line prints, and the timer is armed for the task.
\<close>

theorem clock_time_resolves_to_today:
  assumes "valid_datetime now" and "hh < 24" and "mm < 60"
    and "map_of task ''time'' = Some (JStr (zpad 2 hh @ '':'' @ zpad 2 mm))"
  shows "schedule_task e now task =
           (let t = \<lparr>year = year now, month = month now, day = day now,
                     hour = hh, minute = mm, second = 0, microsecond = 0\<rparr>;
                d = (if dict_get task ''task_type'' = JStr ''calendar_invite'' then 0
                     else max 0 (to_microseconds t - to_microseconds now))
            in ([Print (SchedulerScheduling (dict_get task ''task_type'') d (Naive t)),
                 ArmTimer d task], Inr ()))"
  using parse_time_clock [OF assms(1,2,3), of e] assms(4)
  by (simp add: schedule_task_def dict_get_default_def Let_def max_def)

theorem clock_time_resolves_to_today_witness:
  "valid_datetime wednesday_morning \<and> (17::nat) < 24 \<and> (0::nat) < 60 \<and>
   schedule_task all_services_up wednesday_morning
     [(''task_type'', JStr ''email_reminder''), (''time'', JStr ''17:00'')]
     = ([Print (SchedulerScheduling (JStr ''email_reminder'') 28800000000
           (Naive \<lparr>year = 2026, month = 11, day = 4, hour = 17, minute = 0, second = 0,
                    microsecond = 0\<rparr>)),
         ArmTimer 28800000000 [(''task_type'', JStr ''email_reminder''), (''time'', JStr ''17:00'')]],
        Inr ())"
proof -
  have v: "valid_datetime wednesday_morning"
    by (simp add: valid_datetime_def wednesday_morning_def days_in_month_def)
  have t: "zpad 2 17 = ''17''" "zpad 2 0 = ''00''"
    by (simp_all add: zpad2 digit_char_def)
  show ?thesis
    using v clock_time_resolves_to_today
      [of wednesday_morning 17 0
          "[(''task_type'', JStr ''email_reminder''), (''time'', JStr ''17:00'')]"
          all_services_up]
    by (simp add: t dict_get_def Let_def to_microseconds_def ymd2ord_def wednesday_morning_def)
qed

text \<open>
  For a \<^verbatim>\<open>calendar_invite\<close> task whose time parses to a naive instant, the delay is 0
  whatever the instant.
\<close>

lemma calendar_invite_delay_zero:
  assumes "dict_get task ''task_type'' = JStr ''calendar_invite''"
    and "parse_time e now (dict_get_default task ''time'' (JStr '''')) = Inr (Naive t)"
  shows "schedule_task e now task =
           ([Print (SchedulerScheduling (JStr ''calendar_invite'') 0 (Naive t)),
             ArmTimer 0 task], Inr ())"
  using assms by (simp add: schedule_task_def Let_def)

lemma calendar_invite_delay_zero_example:
  "dict_get [(''task_type'', JStr ''calendar_invite''), (''time'', JStr ''2025-03-15T16:30:00'')]
     ''task_type'' = JStr ''calendar_invite'' \<and>
   schedule_task all_services_up wednesday_morning
     [(''task_type'', JStr ''calendar_invite''), (''time'', JStr ''2025-03-15T16:30:00'')]
     = ([Print (SchedulerScheduling (JStr ''calendar_invite'') 0
           (Naive \<lparr>year = 2025, month = 3, day = 15, hour = 16, minute = 30, second = 0,
                    microsecond = 0\<rparr>)),
         ArmTimer 0 [(''task_type'', JStr ''calendar_invite''),
                     (''time'', JStr ''2025-03-15T16:30:00'')]], Inr ())"
  using calendar_invite_delay_zero
    [of "[(''task_type'', JStr ''calendar_invite''), (''time'', JStr ''2025-03-15T16:30:00'')]"
        all_services_up wednesday_morning
        "\<lparr>year = 2025, month = 3, day = 15, hour = 16, minute = 30, second = 0,
          microsecond = 0\<rparr>"]
  by (simp add: dict_get_def dict_get_default_def parse_time_def all_services_up_def)

text \<open>
  Claim C1 at a time that parses to an aware instant (an ISO timestamp with a UTC offset):
  the subtraction \<^verbatim>\<open>scheduled_time - now\<close>, which stands before the line that forces the
  delay to 0 and outside the \<^verbatim>\<open>try\<close> block, raises \<^verbatim>\<open>TypeError\<close>. No delay is computed,
  no timer is armed, and the exception leaves \<^verbatim>\<open>schedule_task\<close>.
\<close>

theorem aware_timestamp_raises:
  "schedule_task all_services_up wednesday_morning
     [(''task_type'', JStr ''calendar_invite''), (''time'', JStr ''2025-03-15T16:30:00+00:00'')]
     = ([], Inl TypeError)"
  by (simp add: schedule_task_def dict_get_default_def parse_time_def all_services_up_def)

text \<open>
  A time that does not parse: the Dispatcher runs at once on the same record, inside
  \<^verbatim>\<open>schedule_task\<close>, and the scheduling pass goes on with the remaining tasks exactly when
  that dispatch returns.
\<close>

lemma schedule_task_unparsable:
  assumes "parse_time e now (dict_get_default task ''time'' (JStr '''')) = Inl err"
  shows "schedule_task e now task =
           prepend [Print (SchedulerParseError (dict_get_default task ''time'' (JStr '''')) err)]
             (dispatch_task e task)"
  using assms by (simp add: schedule_task_def Let_def)

lemma pass_after_unparsable_time:
  assumes "parse_time e (clock e k) (dict_get_default task ''time'' (JStr '''')) = Inl err"
  shows "schedule_all e k (JObj task # rest) =
           prepend [Print (SchedulerParseError (dict_get_default task ''time'' (JStr '''')) err)]
             (and_then (dispatch_task e task) (\<lambda>_. schedule_all e (Suc k) rest))"
  using assms
  by (simp add: schedule_task_unparsable and_then_def prepend_def split: sum.split)

lemma str_date_wednesday: "str_date wednesday_morning = ''2026-11-04''"
  by (simp add: str_date_def wednesday_morning_def zpad4 zpad2 digit_char_def)

lemmas re_defs = format_regex_def re_Y_def re_m_def re_d_def re_H_def re_M_def re_spaces_def
  rx_defs between_def is_digit_def is_space_def

lemma parse_time_malformed: "parse_time e wednesday_morning (JStr ''25:99'') = Inl ValueError"
  by (simp add: parse_time_def str_date_wednesday strptime_def re_defs)

lemma parse_time_empty: "parse_time e wednesday_morning (JStr '''') = Inl ValueError"
  by (simp add: parse_time_def str_date_wednesday strptime_def re_defs)

text \<open>
  Claim C3 at a \<^verbatim>\<open>calendar_invite\<close> task without a time field, while the calendar service
  fails: the Dispatcher is called at once on the record, the failure of the executor leaves
  \<^verbatim>\<open>dispatch_task\<close> and \<^verbatim>\<open>schedule_task\<close>, and the pass ends there; the second task is
  never scheduled.
\<close>

theorem calendar_failure_aborts_pass:
  "schedule_all executors_down 0
     [JObj [(''task_type'', JStr ''calendar_invite''),
            (''event'', JObj [(''summary'', JStr ''Sync''),
                              (''start'', JStr ''2026-11-05T10:00:00''),
                              (''end'', JStr ''2026-11-05T11:00:00'')])],
      JObj [(''task_type'', JStr ''email_reminder''), (''time'', JStr ''17:00'')]]
     = ([Print (SchedulerParseError (JStr '''') ValueError),
         Print (DispatchExecuting
           [(''task_type'', JStr ''calendar_invite''),
            (''event'', JObj [(''summary'', JStr ''Sync''),
                              (''start'', JStr ''2026-11-05T10:00:00''),
                              (''end'', JStr ''2026-11-05T11:00:00'')])]),
         CreateCalendarInvite
           (JObj [(''summary'', JStr ''Sync''),
                  (''start'', JObj [(''dateTime'', JStr ''2026-11-05T10:00:00''),
                                    (''timeZone'', JStr ''America/Los_Angeles'')]),
                  (''end'', JObj [(''dateTime'', JStr ''2026-11-05T11:00:00''),
                                  (''timeZone'', JStr ''America/Los_Angeles'')])])],
        Inl (ExternalError ''FileNotFoundError''))"
proof -
  have k: "clock executors_down 0 = wednesday_morning"
    and c: "calendar_insert executors_down body = Inl (ExternalError ''FileNotFoundError'')" for body
    by (simp_all add: executors_down_def all_services_up_def)
  show ?thesis
    by (simp add: k schedule_task_def dict_get_default_def parse_time_empty dispatch_task_def
          dict_get_def create_calendar_invite_def c and_then_def prepend_def Let_def)
qed

text \<open>
  Claim C2 at a \<^verbatim>\<open>stock_price\<close> task with the malformed time \<^verbatim>\<open>25:99\<close>, while the quote
  service fails: nothing catches the failure of the lookup, it ends the scheduling pass, and
  the task after it is never scheduled.
\<close>

theorem quote_failure_aborts_pass:
  "schedule_all executors_down 0
     [JObj [(''task_type'', JStr ''stock_price''), (''time'', JStr ''25:99'')],
      JObj [(''task_type'', JStr ''email_reminder''), (''time'', JStr ''17:00'')]]
     = ([Print (SchedulerParseError (JStr ''25:99'') ValueError),
         Print (DispatchExecuting [(''task_type'', JStr ''stock_price''),
                                   (''time'', JStr ''25:99'')]),
         GetStockPrice (JStr ''AAPL'')],
        Inl (ExternalError ''ConnectionError''))"
proof -
  have k: "clock executors_down 0 = wednesday_morning"
    and m: "market_price executors_down (JStr ''AAPL'') = Inl (ExternalError ''ConnectionError'')"
    by (simp_all add: executors_down_def all_services_up_def)
  show ?thesis
    by (simp add: k schedule_task_def dict_get_default_def parse_time_malformed dispatch_task_def
          dict_get_def get_stock_price_def m and_then_Inl and_then_def prepend_def Let_def)
qed

section \<open>Parser\<close>

text \<open>
  When the model returns text, \<^verbatim>\<open>parse_tasks\<close> returns what \<^verbatim>\<open>json.loads\<close> decodes from the
  cleaned text, whatever its shape; it returns the empty list after two log lines when
  \<^verbatim>\<open>json.loads\<close> raises \<^verbatim>\<open>JSONDecodeError\<close>; any other exception of \<^verbatim>\<open>json.loads\<close> leaves
  \<^verbatim>\<open>parse_tasks\<close>.
\<close>

lemma parse_tasks_outcome:
  assumes "generate_content e (prompt_header @ task_text) = Inr (Some text)"
  shows "parse_tasks e task_text =
           (let cleaned = clean_llm_output (py_strip text)
            in case json_loads e cleaned of
                 Inr tasks \<Rightarrow> ([CallGemini (prompt_header @ task_text)], Inr tasks)
               | Inl err \<Rightarrow>
                   if err = JSONDecodeError
                   then ([CallGemini (prompt_header @ task_text), Print ParserInvalidJson,
                          Print (ParserRawOutput cleaned)], Inr (JArr []))
                   else ([CallGemini (prompt_header @ task_text)], Inl err))"
  using assms
  by (simp add: parse_tasks_def call_gemini_def and_then_def prepend_def Let_def
        split: sum.split)

lemma parse_tasks_outcome_example:
  "generate_content all_services_up (prompt_header @ ''Remind me to call John at 17:00'')
     = Inr (Some (''```json'' @ [CHR 0x0A] @ ''[]'' @ [CHR 0x0A] @ ''```'')) \<and>
   parse_tasks all_services_up ''Remind me to call John at 17:00''
     = ([CallGemini (prompt_header @ ''Remind me to call John at 17:00'')], Inr (JArr []))"
proof -
  have c: "clean_llm_output (py_strip (''```json'' @ [CHR 0x0A] @ ''[]'' @ [CHR 0x0A] @ ''```''))
             = ''[]''"
    by (simp add: clean_llm_output_def py_strip_def startswith_def endswith_def is_space_def
          Let_def)
  have g: "generate_content all_services_up (prompt_header @ ''Remind me to call John at 17:00'')
             = Inr (Some (''```json'' @ [CHR 0x0A] @ ''[]'' @ [CHR 0x0A] @ ''```''))"
    by (simp add: all_services_up_def)
  have j: "json_loads all_services_up ''[]'' = Inr (JArr [])"
    by (simp add: all_services_up_def)
  show ?thesis
    using parse_tasks_outcome [OF g] c j g
    by (simp add: Let_def)
qed

text \<open>
  The loop of \<^verbatim>\<open>main\<close> over a dictionary visits its keys, which are strings: a string has no
  \<^verbatim>\<open>get\<close>, and the first key ends the run.
\<close>

lemma loop_over_a_key_raises: "schedule_all e k (JStr key # rest) = ([], Inl AttributeError)"
  by (simp add: and_then_Inl)

text \<open>
  Claim C8 at a model output that is valid JSON but no list of task records, the object
  \<^verbatim>\<open>{"error": "no tasks"}\<close>: \<^verbatim>\<open>parse_tasks\<close>, declared and documented to return a list,
  returns the dictionary as it is; nothing is logged and the result is not the empty
  list.
\<close>

theorem object_output_returned:
  "parse_tasks model_returns_object ''Remind me to call John at 17:00''
     = ([CallGemini (prompt_header @ ''Remind me to call John at 17:00'')],
        Inr (JObj [(''error'', JStr ''no tasks'')]))"
  by (simp add: parse_tasks_def call_gemini_def and_then_Inr prepend_def Let_def
        model_returns_object_def all_services_up_def py_strip_def clean_llm_output_def
        startswith_def endswith_def is_space_def)

end
